theory Spec2Isabelle
  imports Complex_Main
begin

section \<open>Exceptions\<close>

text \<open>
  The Python exceptions that the modelled code raises or lets through. An exception is a
  value: a function that may raise returns \<open>exn + 'a\<close>, with \<open>Inl\<close> for the raise.
  \<open>HTTPException\<close> carries the status code and the detail text, \<open>ApiException\<close> is the
  provider SDK's error with its HTTP status and reason, \<open>ApiTypeError\<close> is the SDK's
  rejection of an argument of the wrong type (it is not an \<open>ApiException\<close>),
  \<open>ValidationError\<close> is what the settings class raises for a missing variable, and
  \<open>DataError\<close> and \<open>IntegrityError\<close> are the database's refusals of a value that does
  not fit its column and of a NULL in a NOT NULL column.
\<close>

datatype exn =
    ValueError string
  | TypeError string
  | WebhookVerificationError string
  | JWTError string
  | HTTPException nat string
  | ApiException nat string
  | ApiTypeError string
  | ValidationError string
  | DataError string
  | IntegrityError string

text \<open>\<open>str(e)\<close>: the message the exception was built with.\<close>

fun str_exn :: "exn \<Rightarrow> string" where
  "str_exn (ValueError msg) = msg"
| "str_exn (TypeError msg) = msg"
| "str_exn (WebhookVerificationError msg) = msg"
| "str_exn (JWTError msg) = msg"
| "str_exn (HTTPException code detail) = detail"
| "str_exn (ApiException code reason) = reason"
| "str_exn (ApiTypeError msg) = msg"
| "str_exn (ValidationError msg) = msg"
| "str_exn (DataError msg) = msg"
| "str_exn (IntegrityError msg) = msg"

text \<open>A name between single quotes, as Python's messages print it.\<close>

definition quoted :: "string \<Rightarrow> string" where
  "quoted s = [CHR 0x27] @ s @ [CHR 0x27]"

section \<open>Webhook verification (app/core/webhook\_verification.py)\<close>

subsection \<open>Rendering an integer as Python's \<open>str\<close> does\<close>

definition digit_char :: "nat \<Rightarrow> char" where
  "digit_char d = ''0123456789'' ! d"

fun str_nat :: "nat \<Rightarrow> string" where
  "str_nat n = (if n < 10 then [digit_char n] else str_nat (n div 10) @ [digit_char (n mod 10)])"

definition str_int :: "int \<Rightarrow> string" where
  "str_int i = (if i < 0 then CHR ''-'' # str_nat (nat (- i)) else str_nat (nat i))"

subsection \<open>The token library\<close>

text \<open>
  The claims of a decoded token are a dictionary from claim names to JSON values; the
  source reads the keys \<open>request_body_sha256\<close> and \<open>iat\<close>.

  \<open>jwt.decode\<close> is the library's (python-jose). It is declared as
  \<open>decode(token, key, algorithms=None, options=None, ...)\<close>: the parameter \<open>key\<close> has no
  default. \<open>jose_jwt_decode\<close> is a call of it with the key argument given or left out: a
  call without the key raises \<open>TypeError\<close> when the arguments are bound, before the
  library looks at the token. What the library does with a token and a key is the
  parameter \<open>decode\<close>, which returns \<open>Inl msg\<close> where it raises \<open>JWTError(msg)\<close>.
\<close>

datatype json = JNull | JInt int | JStr string

type_synonym jwt_claims = "string \<rightharpoonup> json"

definition missing_key_message :: string where
  "missing_key_message = ''decode() missing 1 required positional argument: '' @ quoted ''key''"

definition jose_jwt_decode ::
  "(string \<Rightarrow> string \<Rightarrow> string + jwt_claims) \<Rightarrow> string \<Rightarrow> string option \<Rightarrow> exn + jwt_claims" where
  "jose_jwt_decode decode token key =
     (case key of
        None \<Rightarrow> Inl (TypeError missing_key_message)
      | Some k \<Rightarrow>
          (case decode token k of
             Inl msg \<Rightarrow> Inl (JWTError msg)
           | Inr claims \<Rightarrow> Inr claims))"

text \<open>
  Python's truth test on the result of \<open>dict.get\<close>: false for an absent key, for null,
  for the integer 0 and for the empty string.
\<close>

definition truthy :: "json option \<Rightarrow> bool" where
  "truthy v =
     (case v of
        None \<Rightarrow> False
      | Some JNull \<Rightarrow> False
      | Some (JInt i) \<Rightarrow> i \<noteq> 0
      | Some (JStr s) \<Rightarrow> s \<noteq> [])"

subsection \<open>The provider's webhook verifier\<close>

text \<open>
  \<open>hashlib.sha256(body).hexdigest()\<close> is the library parameter \<open>sha256_hexdigest\<close>, the
  clock \<open>int(time.time())\<close> is the parameter \<open>current_time\<close>.
\<close>

definition MAX_WEBHOOK_AGE :: int where
  "MAX_WEBHOOK_AGE = 300"

definition HTTP_401_UNAUTHORIZED :: nat where
  "HTTP_401_UNAUTHORIZED = 401"

definition HTTP_500_INTERNAL_SERVER_ERROR :: nat where
  "HTTP_500_INTERNAL_SERVER_ERROR = 500"

text \<open>
  The body of the \<open>try\<close> block of \<open>verify_plaid_webhook\<close>. Its first statement is
  \<open>jwt.decode(signature, options={"verify_signature": False})\<close>, a call without the key.
  The statements after it compare the claimed hash with the hash of the body (a claim
  that is null or not a string differs from every hash) and, when \<open>iat\<close> is truthy,
  subtract it from the clock, which raises \<open>TypeError\<close> for a claim that is not a number.
\<close>

definition verify_plaid_webhook_checks ::
  "(string \<Rightarrow> string \<Rightarrow> string + jwt_claims) \<Rightarrow> (string \<Rightarrow> string) \<Rightarrow> int \<Rightarrow> string \<Rightarrow> string
     \<Rightarrow> exn + unit" where
  "verify_plaid_webhook_checks decode sha256_hexdigest current_time signature body =
     (case jose_jwt_decode decode signature None of
        Inl e \<Rightarrow> Inl e
      | Inr unverified \<Rightarrow>
          (case unverified ''request_body_sha256'' of
             None \<Rightarrow> Inl (WebhookVerificationError ''Missing request_body_sha256 claim'')
           | Some expected_hash \<Rightarrow>
               if JStr (sha256_hexdigest body) \<noteq> expected_hash
               then Inl (WebhookVerificationError ''Request body hash mismatch'')
               else if truthy (unverified ''iat'')
               then (case unverified ''iat'' of
                       Some (JInt issued_at) \<Rightarrow>
                         (let age = current_time - issued_at in
                          if age > MAX_WEBHOOK_AGE
                          then Inl (WebhookVerificationError
                                 (''Webhook too old: '' @ str_int age @ '' seconds (max ''
                                   @ str_int MAX_WEBHOOK_AGE @ '')''))
                          else Inr ())
                     | other \<Rightarrow>
                         Inl (TypeError (''unsupported operand type(s) for -: '' @ quoted ''int''
                                @ '' and '' @ quoted ''str'')))
               else Inr ()))"

text \<open>
  \<open>verify_plaid_webhook\<close>: the header \<open>Plaid-Verification\<close> is \<open>None\<close> when absent;
  \<open>if not signature\<close> also rejects the empty string. The \<open>except\<close> clauses turn
  \<open>JWTError\<close> and \<open>WebhookVerificationError\<close> into a 401 and every other exception into
  a 500.
\<close>

definition verify_plaid_webhook ::
  "(string \<Rightarrow> string \<Rightarrow> string + jwt_claims) \<Rightarrow> (string \<Rightarrow> string) \<Rightarrow> int \<Rightarrow> string option \<Rightarrow> string
     \<Rightarrow> exn + unit" where
  "verify_plaid_webhook decode sha256_hexdigest current_time header body =
     (case header of
        None \<Rightarrow> Inl (HTTPException HTTP_401_UNAUTHORIZED ''Missing webhook signature'')
      | Some signature \<Rightarrow>
          if signature = [] then Inl (HTTPException HTTP_401_UNAUTHORIZED ''Missing webhook signature'')
          else (case verify_plaid_webhook_checks decode sha256_hexdigest current_time signature body of
                  Inr u \<Rightarrow> Inr u
                | Inl (JWTError msg) \<Rightarrow>
                    Inl (HTTPException HTTP_401_UNAUTHORIZED (''Invalid webhook token: '' @ msg))
                | Inl (WebhookVerificationError msg) \<Rightarrow> Inl (HTTPException HTTP_401_UNAUTHORIZED msg)
                | Inl e \<Rightarrow>
                    Inl (HTTPException HTTP_500_INTERNAL_SERVER_ERROR ''Webhook verification error'')))"

subsection \<open>The generic HMAC verifier\<close>

text \<open>
  \<open>hmac.new(secret, body, digest).hexdigest()\<close> is the library parameter \<open>hmac_hexdigest\<close>,
  applied to the digest's name. \<open>hmac.compare_digest\<close> on two strings compares them when
  both are ASCII and raises \<open>TypeError\<close> otherwise.
  \<open>verify_hmac_signature_try\<close> is the body of the \<open>try\<close> block, which raises
  \<open>ValueError\<close> for an algorithm it does not know; \<open>verify_hmac_signature\<close> adds the
  \<open>except Exception\<close> clause, which raises \<open>WebhookVerificationError\<close> with the text of
  whatever was caught.
\<close>

definition is_ascii :: "string \<Rightarrow> bool" where
  "is_ascii s = list_all (\<lambda>c. (of_char c :: nat) < 128) s"

definition compare_digest :: "string \<Rightarrow> string \<Rightarrow> exn + bool" where
  "compare_digest a b =
     (if is_ascii a \<and> is_ascii b then Inr (a = b)
      else Inl (TypeError ''comparing strings with non-ASCII characters is not supported''))"

definition verify_hmac_signature_try ::
  "(string \<Rightarrow> string \<Rightarrow> string \<Rightarrow> string) \<Rightarrow> string \<Rightarrow> string \<Rightarrow> string \<Rightarrow> string \<Rightarrow> exn + bool" where
  "verify_hmac_signature_try hmac_hexdigest body signature secret algorithm =
     (if algorithm = ''sha256'' then compare_digest signature (hmac_hexdigest ''sha256'' secret body)
      else if algorithm = ''sha512'' then compare_digest signature (hmac_hexdigest ''sha512'' secret body)
      else Inl (ValueError (''Unsupported algorithm: '' @ algorithm)))"

definition verify_hmac_signature ::
  "(string \<Rightarrow> string \<Rightarrow> string \<Rightarrow> string) \<Rightarrow> string \<Rightarrow> string \<Rightarrow> string \<Rightarrow> string \<Rightarrow> exn + bool" where
  "verify_hmac_signature hmac_hexdigest body signature secret algorithm =
     (case verify_hmac_signature_try hmac_hexdigest body signature secret algorithm of
        Inr b \<Rightarrow> Inr b
      | Inl e \<Rightarrow> Inl (WebhookVerificationError (''Failed to verify signature: '' @ str_exn e)))"

section \<open>Credential vault (app/core/encryption.py)\<close>

text \<open>
  The Fernet primitive and base64 are library code and are parameters of the model:
  \<open>Fernet\<close> is the constructor (\<open>None\<close> where it raises on a key of the wrong format),
  \<open>fernet_encrypt\<close> takes the fresh randomness of the call as an argument, and
  \<open>fernet_decrypt\<close> is \<open>None\<close> where the library raises \<open>InvalidToken\<close>.
\<close>

record 'f fernet_lib =
  urlsafe_b64encode :: "string \<Rightarrow> string"
  Fernet :: "string \<Rightarrow> 'f option"
  fernet_encrypt :: "'f \<Rightarrow> string \<Rightarrow> string \<Rightarrow> string"
  fernet_decrypt :: "'f \<Rightarrow> string \<Rightarrow> string option"

text \<open>
  What the process does with the key when it starts: \<open>settings = Settings()\<close> requires the
  variable \<open>ENCRYPTION_KEY\<close> to be present (a \<open>str\<close> field without default), and the class
  body of \<open>EncryptionService\<close> sets the cached instance \<open>_fernet\<close> to \<open>None\<close>. The result
  is the configured key and the initial cache.
\<close>

definition load_settings :: "string option \<Rightarrow> exn + string" where
  "load_settings env_ENCRYPTION_KEY =
     (case env_ENCRYPTION_KEY of
        None \<Rightarrow> Inl (ValidationError ''ENCRYPTION_KEY'')
      | Some k \<Rightarrow> Inr k)"

definition startup :: "string option \<Rightarrow> exn + (string \<times> 'f option)" where
  "startup env_ENCRYPTION_KEY =
     (case load_settings env_ENCRYPTION_KEY of
        Inl e \<Rightarrow> Inl e
      | Inr k \<Rightarrow> Inr (k, None))"

definition invalid_key_message :: string where
  "invalid_key_message =
     ''Invalid encryption key. Must be 32 url-safe base64-encoded bytes. ''
     @ ''Generate one with: python -c '' @ [CHR 0x27]
     @ ''from cryptography.fernet import Fernet; print(Fernet.generate_key().decode())''
     @ [CHR 0x27]"

definition decrypt_failed_message :: string where
  "decrypt_failed_message =
     ''Failed to decrypt data. Token may be corrupted or encryption key changed.''"

text \<open>
  \<open>_get_fernet\<close>: the cached instance if there is one; otherwise the key is encoded when
  it has 32 characters, taken as it is when not, and given to the constructor. The cache is
  written only when the constructor succeeds. Each function returns its result with the
  cache after the call.
\<close>

definition get_fernet :: "'f fernet_lib \<Rightarrow> string \<Rightarrow> 'f option \<Rightarrow> (exn + 'f) \<times> 'f option" where
  "get_fernet lib encryption_key cache =
     (case cache of
        Some f \<Rightarrow> (Inr f, cache)
      | None \<Rightarrow>
          (let key = (if length encryption_key = 32 then urlsafe_b64encode lib encryption_key
                      else encryption_key)
           in case Fernet lib key of
                None \<Rightarrow> (Inl (ValueError invalid_key_message), None)
              | Some f \<Rightarrow> (Inr f, Some f)))"

definition encrypt ::
  "'f fernet_lib \<Rightarrow> string \<Rightarrow> string \<Rightarrow> 'f option \<Rightarrow> string \<Rightarrow> (exn + string) \<times> 'f option" where
  "encrypt lib encryption_key randomness cache plaintext =
     (if plaintext = [] then (Inr plaintext, cache)
      else (case get_fernet lib encryption_key cache of
              (Inl e, cache') \<Rightarrow> (Inl e, cache')
            | (Inr f, cache') \<Rightarrow> (Inr (fernet_encrypt lib f randomness plaintext), cache')))"

definition decrypt ::
  "'f fernet_lib \<Rightarrow> string \<Rightarrow> 'f option \<Rightarrow> string \<Rightarrow> (exn + string) \<times> 'f option" where
  "decrypt lib encryption_key cache ciphertext =
     (if ciphertext = [] then (Inr ciphertext, cache)
      else (case get_fernet lib encryption_key cache of
              (Inl e, cache') \<Rightarrow> (Inl e, cache')
            | (Inr f, cache') \<Rightarrow>
                (case fernet_decrypt lib f ciphertext of
                   None \<Rightarrow> (Inl (ValueError decrypt_failed_message), cache')
                 | Some plaintext \<Rightarrow> (Inr plaintext, cache'))))"


section \<open>Stored data (app/models)\<close>

text \<open>
  The columns of \<open>bank_accounts\<close> and \<open>transactions\<close> that the synchronisation reads or
  writes. \<open>account_id\<close> is the primary key \<open>id\<close> of a bank account;
  \<open>plaid_access_token\<close> holds what the table holds, the ciphertext written by the
  \<open>EncryptedString\<close> column type. Dates are the ISO text of a calendar date, timestamps
  are seconds. The timestamps that the database maintains by itself (\<open>created_at\<close>,
  \<open>updated_at\<close>) are left out. In a row of \<open>transactions\<close> the column
  \<open>plaid_transaction_id\<close> is not a field: it is the key under which the row is kept.
\<close>

record BankAccount =
  account_id :: string
  household_id :: string
  plaid_item_id :: string
  plaid_access_token :: string
  plaid_cursor :: "string option"
  is_active :: bool
  last_synced_at :: "int option"
  sync_error :: "string option"

record Transaction =
  txn_account_id :: string
  txn_household_id :: string
  amount :: real
  date :: string
  authorized_date :: "string option"
  name :: string
  merchant_name :: "string option"
  plaid_category :: string
  plaid_category_id :: "string option"
  payment_channel :: "string option"
  pending :: bool
  is_manual :: bool
  user_notes :: "string option"

text \<open>
  The column \<open>amount\<close> is \<open>Numeric(precision=15, scale=2)\<close>: the database rounds what it
  is given to two decimals, half away from zero, and refuses a value whose rounding needs
  more than thirteen digits before the point. The text columns are \<open>String(n)\<close>: the
  database refuses a longer text. A character of the model stands for a character of the
  Python string.
\<close>

definition numeric_15_2 :: "real \<Rightarrow> real" where
  "numeric_15_2 x = sgn x * real_of_int \<lfloor>\<bar>x\<bar> * 100 + 1 / 2\<rfloor> / 100"

definition varchar_fits :: "nat \<Rightarrow> string option \<Rightarrow> bool" where
  "varchar_fits n v = (case v of None \<Rightarrow> True | Some s \<Rightarrow> length s \<le> n)"

text \<open>
  Modelled from the spec: the session factory \<open>SessionLocal\<close> (app/db/session.py) is not
  among the sources. The store is taken as the spec describes the storage collaborator,
  with simple keyed read, write and delete operations: a query sees the rows added,
  changed or deleted before it in the same session, and a value that does not fit its
  column is refused when it is written.

  The table of bank accounts is the list of its rows, since the code also enumerates it.
  The rows of \<open>transactions\<close> that came from the provider are only ever reached through
  the column \<open>plaid_transaction_id\<close>, which carries a unique index: they are a map from
  that identifier to the row. Manually entered rows have no identifier, are never matched
  by a query on it, and are kept beside the map.
\<close>

record database =
  bank_accounts :: "BankAccount list"
  transactions :: "string \<rightharpoonup> Transaction"
  manual_transactions :: "Transaction list"

section \<open>Provider client (app/integrations/plaid\_client.py)\<close>

text \<open>
  One transaction of a sync response as the dictionary \<open>txn_data\<close> holds it. The keys the
  code indexes (\<open>transaction_id\<close>, \<open>amount\<close>, \<open>date\<close>, \<open>name\<close>) are present. A key the code
  reads with \<open>.get\<close> is absent, null or has a value. A date is either a \<open>datetime.date\<close>
  object, which is what the SDK's \<open>to_dict()\<close> delivers, or a string; both are written
  by their ISO text. A removed transaction is its \<open>transaction_id\<close>.
\<close>

datatype 'a field = Absent | Null | Value 'a

datatype py_date = DateObject string | DateText string

record txn_data =
  d_transaction_id :: string
  d_amount :: real
  d_date :: py_date
  d_authorized_date :: "py_date field"
  d_name :: string
  d_merchant_name :: "string field"
  d_category :: "string list field"
  d_category_id :: "string field"
  d_payment_channel :: "string field"
  d_pending :: "bool field"

text \<open>
  The values that the expressions of \<open>_save_transaction\<close> and \<open>_update_transaction\<close> yield
  for a payload when none of them raises: the parsed dates, and \<open>None\<close> for an optional
  key without a value. \<open>p_category = None\<close> and \<open>p_pending = None\<close> stand for the defaults
  \<open>[]\<close> and \<open>False\<close>.
\<close>

record txn_values =
  p_transaction_id :: string
  p_amount :: real
  p_date :: string
  p_authorized_date :: "string option"
  p_name :: string
  p_merchant_name :: "string option"
  p_category :: "string list option"
  p_category_id :: "string option"
  p_payment_channel :: "string option"
  p_pending :: "bool option"

text \<open>
  A sync response: the five keys that \<open>sync_transactions\<close> returns. The payloads are
  dictionaries (\<open>txn_data\<close>) in what the client returns and values (\<open>txn_values\<close>) once
  their expressions have been evaluated.
\<close>

record 'p sync_result =
  added :: "'p list"
  modified :: "'p list"
  removed :: "string list"
  has_more :: bool
  next_cursor :: "string option"

text \<open>
  The environment of a run: the crypto library, the configured key, the provider's
  endpoint \<open>transactions_sync\<close> (access token and cursor to a response or an
  \<open>ApiException\<close>), the library's \<open>strptime\<close> with the format \<open>%Y-%m-%d\<close> on a string
  (\<open>Inl msg\<close> where it raises \<open>ValueError(msg)\<close>), and the clock. The state of a run: the
  database, the cached \<open>EncryptionService._fernet\<close>, and the requests sent to the
  provider so far.
\<close>

record 'f env =
  crypto :: "'f fernet_lib"
  ENCRYPTION_KEY :: string
  transactions_sync :: "string \<Rightarrow> string \<Rightarrow> exn + txn_data sync_result"
  strptime_ymd :: "string \<Rightarrow> string + string"
  utcnow :: int

record 'f state =
  st_db :: database
  st_fernet :: "'f option"
  st_requests :: "(string \<times> string) list"

text \<open>
  \<open>PlaidClient.sync_transactions\<close>. The request object is built first:
  \<open>TransactionsSyncRequest(access_token=access_token, cursor=cursor)\<close>. The SDK checks the
  types of the arguments, and \<open>cursor\<close> must be a string: for the cursor \<open>None\<close> of an
  account that was never synced it raises \<open>ApiTypeError\<close>, which the clause
  \<open>except plaid.ApiException\<close> does not catch, and no request is sent. Otherwise one
  request is sent; the response's five keys are copied into the result, and an
  \<open>ApiException\<close> is logged and raised again.
\<close>

definition cursor_type_message :: string where
  "cursor_type_message =
     ''Invalid type for variable '' @ quoted ''cursor''
     @ ''. Required value type is str and passed type was NoneType at [''
     @ quoted ''cursor'' @ '']''"

definition sync_transactions ::
  "'f env \<Rightarrow> 'f state \<Rightarrow> string \<Rightarrow> string option \<Rightarrow> (exn + txn_data sync_result) \<times> 'f state" where
  "sync_transactions env st access_token cursor =
     (case cursor of
        None \<Rightarrow> (Inl (ApiTypeError cursor_type_message), st)
      | Some c \<Rightarrow>
          (let st' = st\<lparr>st_requests := st_requests st @ [(access_token, c)]\<rparr>
           in case transactions_sync env access_token c of
                Inl e \<Rightarrow> (Inl e, st')
              | Inr result \<Rightarrow>
                  (Inr \<lparr>added = added result, modified = modified result,
                        removed = removed result, has_more = has_more result,
                        next_cursor = next_cursor result\<rparr>, st')))"

section \<open>Synchronisation service (app/services/plaid\_service.py)\<close>

text \<open>
  \<open>db.query(BankAccount).filter(BankAccount.id == account_id).first()\<close>: the first row
  with that key, or \<open>None\<close>, is \<open>first_account\<close>. Loading the row runs
  \<open>EncryptedString.process_result_value\<close>, which decrypts the token column, so the query
  raises what \<open>decrypt\<close> raises. The loaded object carries the plaintext token.
\<close>

definition first_account :: "database \<Rightarrow> string \<Rightarrow> BankAccount option" where
  "first_account db ident = find (\<lambda>a. account_id a = ident) (bank_accounts db)"

definition query_bank_account ::
  "'f env \<Rightarrow> 'f state \<Rightarrow> string \<Rightarrow> (exn + BankAccount option) \<times> 'f state" where
  "query_bank_account env st ident =
     (case first_account (st_db st) ident of
        None \<Rightarrow> (Inr None, st)
      | Some row \<Rightarrow>
          (case decrypt (crypto env) (ENCRYPTION_KEY env) (st_fernet st) (plaid_access_token row) of
             (Inl e, cache') \<Rightarrow> (Inl e, st\<lparr>st_fernet := cache'\<rparr>)
           | (Inr token, cache') \<Rightarrow>
               (Inr (Some (row\<lparr>plaid_access_token := token\<rparr>)), st\<lparr>st_fernet := cache'\<rparr>)))"

subsection \<open>The expressions evaluated on a payload\<close>

text \<open>
  \<open>datetime.strptime(v, "%Y-%m-%d")\<close> raises \<open>TypeError\<close> when \<open>v\<close> is not a string, so for
  every \<open>datetime.date\<close> object, and \<open>ValueError\<close> when the string does not match.
  \<open>authorized_date\<close> is parsed only when the key holds a truthy value; a date object is
  truthy. \<open>", ".join(txn_data.get("category", []))\<close> raises \<open>TypeError\<close> when the key is
  present and null.
\<close>

definition strptime_raises :: "(string \<Rightarrow> string + string) \<Rightarrow> py_date \<Rightarrow> exn option" where
  "strptime_raises parse v =
     (case v of
        DateObject d \<Rightarrow> Some (TypeError ''strptime() argument 1 must be str, not datetime.date'')
      | DateText s \<Rightarrow> (case parse s of Inl msg \<Rightarrow> Some (ValueError msg) | Inr d \<Rightarrow> None))"

definition authorized_date_raises ::
  "(string \<Rightarrow> string + string) \<Rightarrow> py_date field \<Rightarrow> exn option" where
  "authorized_date_raises parse f =
     (case f of
        Value (DateText s) \<Rightarrow> if s = [] then None else strptime_raises parse (DateText s)
      | Value (DateObject d) \<Rightarrow> strptime_raises parse (DateObject d)
      | other \<Rightarrow> None)"

definition category_raises :: "string list field \<Rightarrow> exn option" where
  "category_raises f =
     (case f of Null \<Rightarrow> Some (TypeError ''can only join an iterable'') | other \<Rightarrow> None)"

text \<open>The first exception of a sequence of evaluations, in their order.\<close>

fun first_raise :: "exn option list \<Rightarrow> exn option" where
  "first_raise [] = None"
| "first_raise (None # rest) = first_raise rest"
| "first_raise (Some e # rest) = Some e"

text \<open>
  What the keyword arguments of \<open>Transaction(...)\<close> in \<open>_save_transaction\<close> raise, and what
  the assignments of \<open>_update_transaction\<close> raise, in the order of the source. The other
  expressions (\<open>abs\<close>, indexing a present key, \<open>.get\<close>) raise nothing.
\<close>

definition insert_raises :: "(string \<Rightarrow> string + string) \<Rightarrow> txn_data \<Rightarrow> exn option" where
  "insert_raises parse txn =
     first_raise [strptime_raises parse (d_date txn),
                  authorized_date_raises parse (d_authorized_date txn),
                  category_raises (d_category txn)]"

definition update_raises :: "(string \<Rightarrow> string + string) \<Rightarrow> txn_data \<Rightarrow> exn option" where
  "update_raises parse txn =
     first_raise [strptime_raises parse (d_date txn), category_raises (d_category txn)]"

text \<open>The value of \<open>txn_data.get(key)\<close>, and the values of a payload.\<close>

definition field_get :: "'a field \<Rightarrow> 'a option" where
  "field_get f = (case f of Value v \<Rightarrow> Some v | other \<Rightarrow> None)"

definition values_of :: "(string \<Rightarrow> string + string) \<Rightarrow> txn_data \<Rightarrow> txn_values" where
  "values_of parse txn =
     \<lparr>p_transaction_id = d_transaction_id txn,
      p_amount = d_amount txn,
      p_date = (case d_date txn of
                  DateObject d \<Rightarrow> d
                | DateText s \<Rightarrow> (case parse s of Inr d \<Rightarrow> d | Inl msg \<Rightarrow> s)),
      p_authorized_date =
        (case d_authorized_date txn of
           Value (DateText s) \<Rightarrow>
             if s = [] then None else (case parse s of Inr d \<Rightarrow> Some d | Inl msg \<Rightarrow> None)
         | Value (DateObject d) \<Rightarrow> Some d
         | other \<Rightarrow> None),
      p_name = d_name txn,
      p_merchant_name = field_get (d_merchant_name txn),
      p_category = field_get (d_category txn),
      p_category_id = field_get (d_category_id txn),
      p_payment_channel = field_get (d_payment_channel txn),
      p_pending = field_get (d_pending txn)\<rparr>"

subsection \<open>The writes\<close>

text \<open>
  The functions of this subsection are total: they say what is written once the
  expressions of a call have been evaluated without an exception and the database has
  accepted the row. The calls themselves, which can raise, are \<open>update_transaction_call\<close>,
  \<open>save_transaction_call\<close> and \<open>reconcile\<close> in the next subsection.
\<close>

text \<open>\<open>", ".join(categories)\<close>\<close>

fun join_comma :: "string list \<Rightarrow> string" where
  "join_comma [] = []"
| "join_comma [x] = x"
| "join_comma (x # y # ys) = x @ '', '' @ join_comma (y # ys)"

text \<open>
  The eight assignments of \<open>_update_transaction\<close> to the row it found, as the row holds
  them once written. The amount assigned is \<open>abs(txn_data["amount"])\<close>, which the column
  rounds; \<open>authorized_date\<close> is not assigned.
\<close>

definition assign_fields :: "txn_values \<Rightarrow> Transaction \<Rightarrow> Transaction" where
  "assign_fields txn transaction =
     transaction\<lparr>
       amount := numeric_15_2 \<bar>p_amount txn\<bar>,
       date := p_date txn,
       name := p_name txn,
       merchant_name := p_merchant_name txn,
       pending := (case p_pending txn of None \<Rightarrow> False | Some b \<Rightarrow> b),
       plaid_category := join_comma (case p_category txn of None \<Rightarrow> [] | Some c \<Rightarrow> c),
       plaid_category_id := p_category_id txn,
       payment_channel := p_payment_channel txn\<rparr>"

text \<open>
  The row that \<open>_save_transaction\<close> builds for a payload not yet stored, again with the
  absolute value of the amount. A \<open>pending\<close> without a value takes the column's default
  \<open>False\<close>. The columns the constructor is not given (here the user's notes) start empty.
\<close>

definition new_transaction :: "BankAccount \<Rightarrow> txn_values \<Rightarrow> Transaction" where
  "new_transaction account txn =
     \<lparr>txn_account_id = account_id account,
      txn_household_id = household_id account,
      amount = numeric_15_2 \<bar>p_amount txn\<bar>,
      date = p_date txn,
      authorized_date = p_authorized_date txn,
      name = p_name txn,
      merchant_name = p_merchant_name txn,
      plaid_category = join_comma (case p_category txn of None \<Rightarrow> [] | Some c \<Rightarrow> c),
      plaid_category_id = p_category_id txn,
      payment_channel = p_payment_channel txn,
      pending = (case p_pending txn of None \<Rightarrow> False | Some b \<Rightarrow> b),
      is_manual = False,
      user_notes = None\<rparr>"

text \<open>
  What \<open>_update_transaction\<close>, \<open>_save_transaction\<close> and \<open>_remove_transaction\<close> do to the
  store when nothing is raised: the row with the payload's identifier, if there is one,
  gets the assignments (without such a row a warning is logged and nothing changes); a
  payload whose identifier is already stored is handed to \<open>_update_transaction\<close> and a
  new row is added otherwise; the row with an identifier is deleted if there is one.
\<close>

definition update_transaction :: "database \<Rightarrow> txn_values \<Rightarrow> database" where
  "update_transaction db txn =
     (case transactions db (p_transaction_id txn) of
        None \<Rightarrow> db
      | Some transaction \<Rightarrow>
          db\<lparr>transactions :=
               (transactions db)(p_transaction_id txn \<mapsto> assign_fields txn transaction)\<rparr>)"

definition save_transaction :: "database \<Rightarrow> BankAccount \<Rightarrow> txn_values \<Rightarrow> database" where
  "save_transaction db account txn =
     (case transactions db (p_transaction_id txn) of
        Some existing \<Rightarrow> update_transaction db txn
      | None \<Rightarrow>
          db\<lparr>transactions :=
               (transactions db)(p_transaction_id txn \<mapsto> new_transaction account txn)\<rparr>)"

definition remove_transaction :: "database \<Rightarrow> string \<Rightarrow> database" where
  "remove_transaction db plaid_transaction_id =
     (case transactions db plaid_transaction_id of
        Some transaction \<Rightarrow> db\<lparr>transactions := (transactions db)(plaid_transaction_id := None)\<rparr>
      | None \<Rightarrow> db)"

text \<open>
  The three iterations of \<open>sync_account_transactions\<close> over one response whose payloads
  have been evaluated, in the order of the source: added, then modified, then removed.
\<close>

definition process_sync_result ::
  "database \<Rightarrow> BankAccount \<Rightarrow> txn_values sync_result \<Rightarrow> database" where
  "process_sync_result db account sync_result =
     fold (\<lambda>tid d. remove_transaction d tid) (removed sync_result)
       (fold (\<lambda>txn d. update_transaction d txn) (modified sync_result)
          (fold (\<lambda>txn d. save_transaction d account txn) (added sync_result) db))"

subsection \<open>The calls\<close>

text \<open>
  What the database refuses when a row of \<open>transactions\<close> is written: an amount or a text
  that does not fit its column (\<open>DataError\<close>) and, in an update, the NULL that
  \<open>txn_data.get("pending", False)\<close> yields for a key that is present and null
  (\<open>IntegrityError\<close>).
\<close>

definition transaction_fits :: "Transaction \<Rightarrow> bool" where
  "transaction_fits t =
     (\<bar>amount t\<bar> < 10 ^ 13
      \<and> length (name t) \<le> 500
      \<and> varchar_fits 255 (merchant_name t)
      \<and> length (plaid_category t) \<le> 255
      \<and> varchar_fits 50 (plaid_category_id t)
      \<and> varchar_fits 50 (payment_channel t))"

definition insert_refused :: "string \<Rightarrow> Transaction \<Rightarrow> exn option" where
  "insert_refused plaid_transaction_id t =
     (if length plaid_transaction_id \<le> 255 \<and> transaction_fits t then None
      else Some (DataError ''value out of range for its column''))"

definition update_refused :: "txn_data \<Rightarrow> Transaction \<Rightarrow> exn option" where
  "update_refused txn t =
     (if transaction_fits t
      then (if d_pending txn = Null
            then Some (IntegrityError ''null value in column pending violates not-null constraint'')
            else None)
      else Some (DataError ''value out of range for its column''))"

text \<open>
  \<open>_update_transaction(db, txn_data)\<close>, \<open>_save_transaction(db, account, txn_data)\<close> and the
  three iterations on a response as the client returns it: each call ends with the
  exception of the first expression that raises, else with the exception of the
  database, else with the store after its write.
\<close>

definition update_transaction_call ::
  "(string \<Rightarrow> string + string) \<Rightarrow> database \<Rightarrow> txn_data \<Rightarrow> exn + database" where
  "update_transaction_call parse db txn =
     (case transactions db (d_transaction_id txn) of
        None \<Rightarrow> Inr db
      | Some transaction \<Rightarrow>
          (case update_raises parse txn of
             Some e \<Rightarrow> Inl e
           | None \<Rightarrow>
               (case update_refused txn (assign_fields (values_of parse txn) transaction) of
                  Some e \<Rightarrow> Inl e
                | None \<Rightarrow> Inr (update_transaction db (values_of parse txn)))))"

definition save_transaction_call ::
  "(string \<Rightarrow> string + string) \<Rightarrow> database \<Rightarrow> BankAccount \<Rightarrow> txn_data \<Rightarrow> exn + database" where
  "save_transaction_call parse db account txn =
     (case transactions db (d_transaction_id txn) of
        Some existing \<Rightarrow> update_transaction_call parse db txn
      | None \<Rightarrow>
          (case insert_raises parse txn of
             Some e \<Rightarrow> Inl e
           | None \<Rightarrow>
               (case insert_refused (d_transaction_id txn)
                       (new_transaction account (values_of parse txn)) of
                  Some e \<Rightarrow> Inl e
                | None \<Rightarrow> Inr (save_transaction db account (values_of parse txn)))))"

text \<open>A response with its payloads evaluated.\<close>

definition values_of_result ::
  "(string \<Rightarrow> string + string) \<Rightarrow> txn_data sync_result \<Rightarrow> txn_values sync_result" where
  "values_of_result parse sync_result =
     \<lparr>added = map (values_of parse) (added sync_result),
      modified = map (values_of parse) (modified sync_result),
      removed = removed sync_result,
      has_more = has_more sync_result,
      next_cursor = next_cursor sync_result\<rparr>"

fun for_each :: "('a \<Rightarrow> database \<Rightarrow> exn + database) \<Rightarrow> 'a list \<Rightarrow> database \<Rightarrow> exn + database" where
  "for_each f [] db = Inr db"
| "for_each f (x # xs) db = (case f x db of Inl e \<Rightarrow> Inl e | Inr db' \<Rightarrow> for_each f xs db')"

definition reconcile ::
  "(string \<Rightarrow> string + string) \<Rightarrow> database \<Rightarrow> BankAccount \<Rightarrow> txn_data sync_result \<Rightarrow> exn + database" where
  "reconcile parse db account sync_result =
     (case for_each (\<lambda>txn d. save_transaction_call parse d account txn) (added sync_result) db of
        Inl e \<Rightarrow> Inl e
      | Inr db1 \<Rightarrow>
          (case for_each (\<lambda>txn d. update_transaction_call parse d txn) (modified sync_result) db1 of
             Inl e \<Rightarrow> Inl e
           | Inr db2 \<Rightarrow> Inr (fold (\<lambda>tid d. remove_transaction d tid) (removed sync_result) db2)))"

text \<open>
  The three assignments to the loaded account and the commit: the rows with the account's
  key get the new cursor, the time of the run and no error. The token column is not
  assigned, so the stored ciphertext stays. The column \<open>plaid_cursor\<close> is \<open>String(500)\<close>.
\<close>

definition commit_account ::
  "database \<Rightarrow> string \<Rightarrow> string option \<Rightarrow> int \<Rightarrow> database" where
  "commit_account db ident cursor now =
     db\<lparr>bank_accounts :=
          map (\<lambda>a. if account_id a = ident
                    then a\<lparr>plaid_cursor := cursor, last_synced_at := Some now, sync_error := None\<rparr>
                    else a)
              (bank_accounts db)\<rparr>"

definition commit_account_call ::
  "database \<Rightarrow> string \<Rightarrow> string option \<Rightarrow> int \<Rightarrow> exn + database" where
  "commit_account_call db ident cursor now =
     (if varchar_fits 500 cursor then Inr (commit_account db ident cursor now)
      else Inl (DataError ''value out of range for its column''))"

record sync_counts =
  added_count :: nat
  modified_count :: nat
  removed_count :: nat

text \<open>
  \<open>PlaidService.sync_account_transactions\<close>. The account is loaded (an unknown key raises
  \<open>ValueError\<close>), the provider is asked once with the stored cursor, the response is
  applied, and the cursor of the response is stored. Neither \<open>is_active\<close> nor \<open>has_more\<close>
  is read. The only commit is the last statement: a run that raises has committed
  nothing, and its callers discard the session, so the database it leaves is the one it
  found.
\<close>

definition sync_account_transactions ::
  "'f env \<Rightarrow> 'f state \<Rightarrow> string \<Rightarrow> (exn + sync_counts) \<times> 'f state" where
  "sync_account_transactions env st ident =
     (case query_bank_account env st ident of
        (Inl e, st1) \<Rightarrow> (Inl e, st1)
      | (Inr None, st1) \<Rightarrow> (Inl (ValueError (''Account '' @ ident @ '' not found'')), st1)
      | (Inr (Some account), st1) \<Rightarrow>
          (case sync_transactions env st1 (plaid_access_token account) (plaid_cursor account) of
             (Inl e, st2) \<Rightarrow> (Inl e, st2)
           | (Inr sync_result, st2) \<Rightarrow>
               (case reconcile (strptime_ymd env) (st_db st2) account sync_result of
                  Inl e \<Rightarrow> (Inl e, st2)
                | Inr db1 \<Rightarrow>
                    (case commit_account_call db1 ident (next_cursor sync_result) (utcnow env) of
                       Inl e \<Rightarrow> (Inl e, st2)
                     | Inr db2 \<Rightarrow>
                         (Inr \<lparr>added_count = length (added sync_result),
                               modified_count = length (modified sync_result),
                               removed_count = length (removed sync_result)\<rparr>,
                          st2\<lparr>st_db := db2\<rparr>)))))"

subsection \<open>One identifier at a time\<close>

text \<open>
  What the three operations do to the row stored under one identifier \<open>k\<close>, as functions
  on that row alone, and \<open>write_fields\<close>, the assignments of the payloads for \<open>k\<close> in a
  list, in order. They are used to reason about \<open>process_sync_result\<close>.
\<close>

definition save_at :: "BankAccount \<Rightarrow> txn_values \<Rightarrow> string \<Rightarrow> Transaction option \<Rightarrow> Transaction option" where
  "save_at account txn k row =
     (if p_transaction_id txn = k
      then (case row of None \<Rightarrow> Some (new_transaction account txn)
                      | Some r \<Rightarrow> Some (assign_fields txn r))
      else row)"

definition update_at :: "txn_values \<Rightarrow> string \<Rightarrow> Transaction option \<Rightarrow> Transaction option" where
  "update_at txn k row =
     (if p_transaction_id txn = k then map_option (assign_fields txn) row else row)"

definition remove_at :: "string \<Rightarrow> string \<Rightarrow> Transaction option \<Rightarrow> Transaction option" where
  "remove_at tid k row = (if tid = k then None else row)"

definition process_at :: "BankAccount \<Rightarrow> txn_values sync_result \<Rightarrow> string \<Rightarrow> Transaction option \<Rightarrow> Transaction option" where
  "process_at account sync_result k row =
     fold (\<lambda>tid. remove_at tid k) (removed sync_result)
       (fold (\<lambda>txn. update_at txn k) (modified sync_result)
          (fold (\<lambda>txn. save_at account txn k) (added sync_result) row))"

definition write_fields :: "string \<Rightarrow> txn_values list \<Rightarrow> Transaction \<Rightarrow> Transaction" where
  "write_fields k txns =
     fold (\<lambda>txn r. if p_transaction_id txn = k then assign_fields txn r else r) txns"

section \<open>Worker task (app/tasks/plaid\_tasks.py)\<close>

text \<open>
  What a task invocation ends with: its return value, a request to run again after a
  delay, or the exception it failed with. \<open>self.retry(exc=e, countdown=c)\<close> is the task
  runner's: it asks for another run unless the runs already retried have reached
  \<open>max_retries\<close>, in which case it raises \<open>exc\<close>.
\<close>

datatype 'a task_outcome = Success 'a | Retry exn nat | Failure exn

definition self_retry :: "nat \<Rightarrow> nat \<Rightarrow> exn \<Rightarrow> nat \<Rightarrow> 'a task_outcome" where
  "self_retry limit request_retries exc countdown =
     (if request_retries + 1 > limit then Failure exc else Retry exc countdown)"

text \<open>The task is declared with \<open>max_retries=3\<close>.\<close>

definition max_retries :: nat where
  "max_retries = 3"

text \<open>
  The task \<open>sync_account_transactions\<close>: every exception of the service reaches the one
  \<open>except Exception\<close> clause, which rolls the session back and calls
  \<open>self.retry(exc=e, countdown=300)\<close>.
\<close>

definition sync_account_transactions_task ::
  "'f env \<Rightarrow> 'f state \<Rightarrow> nat \<Rightarrow> string \<Rightarrow> sync_counts task_outcome \<times> 'f state" where
  "sync_account_transactions_task env st request_retries ident =
     (case sync_account_transactions env st ident of
        (Inr result, st') \<Rightarrow> (Success result, st')
      | (Inl e, st') \<Rightarrow> (self_retry max_retries request_retries e 300, st'\<lparr>st_db := st_db st\<rparr>))"


section \<open>Sample data\<close>

text \<open>
  Concrete stand-ins for the library parameters, and a small database, on which the
  definitions above are evaluated. The stand-ins are not the real primitives: they only
  need to be functions of the right type.
\<close>

definition sample_sha256 :: "string \<Rightarrow> string" where
  "sample_sha256 body = ''sha256:'' @ body"

definition sample_claims_no_iat :: jwt_claims where
  "sample_claims_no_iat = [''request_body_sha256'' \<mapsto> JStr (sample_sha256 ''{}'')]"

definition sample_claims_iat_600 :: jwt_claims where
  "sample_claims_iat_600 =
     [''request_body_sha256'' \<mapsto> JStr (sample_sha256 ''{}''), ''iat'' \<mapsto> JInt 600]"

definition sample_jwt_decode :: "string \<Rightarrow> string \<Rightarrow> string + jwt_claims" where
  "sample_jwt_decode token key =
     (if token = ''token-no-iat'' then Inr sample_claims_no_iat
      else if token = ''token-iat-600'' then Inr sample_claims_iat_600
      else Inl ''Not enough segments'')"

definition sample_hmac :: "string \<Rightarrow> string \<Rightarrow> string \<Rightarrow> string" where
  "sample_hmac digest secret body = digest @ '':'' @ secret @ '':'' @ body"

definition sample_b64encode :: "string \<Rightarrow> string" where
  "sample_b64encode s = ''b64:'' @ s"

definition sample_Fernet :: "string \<Rightarrow> string option" where
  "sample_Fernet key = (if key = ''good-key'' then Some key else None)"

definition sample_fernet_encrypt :: "string \<Rightarrow> string \<Rightarrow> string \<Rightarrow> string" where
  "sample_fernet_encrypt f randomness plaintext = ''enc:'' @ plaintext"

definition sample_fernet_decrypt :: "string \<Rightarrow> string \<Rightarrow> string option" where
  "sample_fernet_decrypt f ciphertext =
     (if take 4 ciphertext = ''enc:'' then Some (drop 4 ciphertext) else None)"

definition sample_lib :: "string fernet_lib" where
  "sample_lib = \<lparr>urlsafe_b64encode = sample_b64encode, Fernet = sample_Fernet,
                 fernet_encrypt = sample_fernet_encrypt, fernet_decrypt = sample_fernet_decrypt\<rparr>"

definition sample_strptime :: "string \<Rightarrow> string + string" where
  "sample_strptime s =
     (if length s = 10 then Inr s else Inl ''time data does not match format'')"

text \<open>
  A payload whose date is a string, as a caller can build it, one with an amount of three
  decimals, and a payload as the SDK delivers it, with date objects.
\<close>

definition sample_txn_1 :: txn_data where
  "sample_txn_1 = \<lparr>d_transaction_id = ''txn-1'', d_amount = - 5, d_date = DateText ''2024-01-15'',
                   d_authorized_date = Absent, d_name = ''Coffee'', d_merchant_name = Absent,
                   d_category = Absent, d_category_id = Absent, d_payment_channel = Absent,
                   d_pending = Absent\<rparr>"

definition sample_txn_2 :: txn_data where
  "sample_txn_2 = \<lparr>d_transaction_id = ''txn-2'', d_amount = 20, d_date = DateObject ''2024-01-16'',
                   d_authorized_date = Value (DateObject ''2024-01-16''), d_name = ''Books'',
                   d_merchant_name = Value ''Shop'', d_category = Value [''Shops'', ''Books''],
                   d_category_id = Null, d_payment_channel = Value ''online'',
                   d_pending = Value False\<rparr>"

definition sample_txn_3 :: txn_data where
  "sample_txn_3 = \<lparr>d_transaction_id = ''txn-1'', d_amount = - 5555 / 1000,
                   d_date = DateText ''2024-01-17'',
                   d_authorized_date = Absent, d_name = ''Coffee'', d_merchant_name = Absent,
                   d_category = Absent, d_category_id = Absent, d_payment_channel = Absent,
                   d_pending = Absent\<rparr>"

definition sample_page_1 :: "txn_data sync_result" where
  "sample_page_1 = \<lparr>added = [], modified = [sample_txn_2], removed = [''txn-0''],
                    has_more = True, next_cursor = Some ''c1''\<rparr>"

definition sample_page_2 :: "txn_data sync_result" where
  "sample_page_2 = \<lparr>added = [sample_txn_2], modified = [], removed = [],
                    has_more = False, next_cursor = Some ''c2''\<rparr>"

definition sample_transactions_sync :: "string \<Rightarrow> string \<Rightarrow> exn + txn_data sync_result" where
  "sample_transactions_sync access_token cursor =
     (if access_token \<noteq> ''access-1'' then Inl (ApiException 400 ''INVALID_ACCESS_TOKEN'')
      else if cursor = ''c0'' then Inr sample_page_1
      else Inr sample_page_2)"

definition sample_env :: "string env" where
  "sample_env = \<lparr>crypto = sample_lib, ENCRYPTION_KEY = ''good-key'',
                 transactions_sync = sample_transactions_sync,
                 strptime_ymd = sample_strptime, utcnow = 1700000000\<rparr>"

definition sample_id_1 :: string where
  "sample_id_1 = ''11111111-1111-1111-1111-111111111111''"

definition sample_id_2 :: string where
  "sample_id_2 = ''22222222-2222-2222-2222-222222222222''"

definition sample_account_1 :: BankAccount where
  "sample_account_1 = \<lparr>account_id = sample_id_1, household_id = ''aaaaaaaa-aaaa-aaaa-aaaa-aaaaaaaaaaaa'',
                       plaid_item_id = ''item-1'', plaid_access_token = ''enc:access-1'',
                       plaid_cursor = Some ''c0'', is_active = True, last_synced_at = None,
                       sync_error = None\<rparr>"

definition sample_account_2 :: BankAccount where
  "sample_account_2 = \<lparr>account_id = sample_id_2, household_id = ''aaaaaaaa-aaaa-aaaa-aaaa-aaaaaaaaaaaa'',
                       plaid_item_id = ''item-2'', plaid_access_token = ''enc:access-1'',
                       plaid_cursor = Some ''c0'', is_active = False, last_synced_at = None,
                       sync_error = Some ''Plaid item error - re-authentication required''\<rparr>"

definition sample_account_3 :: BankAccount where
  "sample_account_3 = \<lparr>account_id = ''acct-3'', household_id = ''aaaaaaaa-aaaa-aaaa-aaaa-aaaaaaaaaaaa'',
                       plaid_item_id = ''item-3'', plaid_access_token = ''corrupted'',
                       plaid_cursor = Some ''c0'', is_active = True, last_synced_at = None,
                       sync_error = None\<rparr>"

definition sample_db :: database where
  "sample_db = \<lparr>bank_accounts = [sample_account_1, sample_account_2, sample_account_3],
                transactions = Map.empty, manual_transactions = []\<rparr>"

definition sample_state :: "string state" where
  "sample_state = \<lparr>st_db = sample_db, st_fernet = None, st_requests = []\<rparr>"

section \<open>Reconciliation of one response\<close>

text \<open>
  The operations change only the map of provider transactions, and they change it one
  identifier at a time: the row under \<open>k\<close> afterwards depends only on the row under \<open>k\<close>
  before.
\<close>

lemma assign_fields_absorb: "assign_fields p (assign_fields q r) = assign_fields p r"
  by (simp add: assign_fields_def)

lemma assign_fields_new: "assign_fields p (new_transaction a p) = new_transaction a p"
  by (simp add: assign_fields_def new_transaction_def)

lemma save_transaction_at:
  "save_transaction db a p = db\<lparr>transactions := (\<lambda>k. save_at a p k (transactions db k))\<rparr>"
proof -
  have "transactions (save_transaction db a p) = (\<lambda>k. save_at a p k (transactions db k))"
    by (rule ext) (simp add: save_transaction_def update_transaction_def save_at_def split: option.splits)
  moreover have "save_transaction db a p = db\<lparr>transactions := transactions (save_transaction db a p)\<rparr>"
    by (simp add: save_transaction_def update_transaction_def split: option.splits)
  ultimately show ?thesis by simp
qed

lemma update_transaction_at:
  "update_transaction db p = db\<lparr>transactions := (\<lambda>k. update_at p k (transactions db k))\<rparr>"
proof -
  have "transactions (update_transaction db p) = (\<lambda>k. update_at p k (transactions db k))"
    by (rule ext) (simp add: update_transaction_def update_at_def split: option.splits)
  moreover have "update_transaction db p = db\<lparr>transactions := transactions (update_transaction db p)\<rparr>"
    by (simp add: update_transaction_def split: option.splits)
  ultimately show ?thesis by simp
qed

lemma remove_transaction_at:
  "remove_transaction db tid = db\<lparr>transactions := (\<lambda>k. remove_at tid k (transactions db k))\<rparr>"
proof -
  have "transactions (remove_transaction db tid) = (\<lambda>k. remove_at tid k (transactions db k))"
    by (rule ext) (simp add: remove_transaction_def remove_at_def split: option.splits)
  moreover have "remove_transaction db tid = db\<lparr>transactions := transactions (remove_transaction db tid)\<rparr>"
    by (simp add: remove_transaction_def split: option.splits)
  ultimately show ?thesis by simp
qed

lemma fold_save_at:
  "fold (\<lambda>txn d. save_transaction d a txn) txns db =
     db\<lparr>transactions := (\<lambda>k. fold (\<lambda>txn. save_at a txn k) txns (transactions db k))\<rparr>"
  by (induction txns arbitrary: db) (simp_all add: save_transaction_at)

lemma fold_update_at:
  "fold (\<lambda>txn d. update_transaction d txn) txns db =
     db\<lparr>transactions := (\<lambda>k. fold (\<lambda>txn. update_at txn k) txns (transactions db k))\<rparr>"
  by (induction txns arbitrary: db) (simp_all add: update_transaction_at)

lemma fold_remove_at:
  "fold (\<lambda>tid d. remove_transaction d tid) tids db =
     db\<lparr>transactions := (\<lambda>k. fold (\<lambda>tid. remove_at tid k) tids (transactions db k))\<rparr>"
  by (induction tids arbitrary: db) (simp_all add: remove_transaction_at)

lemma process_sync_result_at:
  "process_sync_result db a sr = db\<lparr>transactions := (\<lambda>k. process_at a sr k (transactions db k))\<rparr>"
  by (simp add: process_sync_result_def process_at_def fold_save_at fold_update_at fold_remove_at)

lemma fold_remove_at_eq:
  "fold (\<lambda>tid. remove_at tid k) tids row = (if k \<in> set tids then None else row)"
  by (induction tids arbitrary: row) (auto simp: remove_at_def)

lemma fold_update_at_None: "fold (\<lambda>txn. update_at txn k) txns None = None"
  by (induction txns) (simp_all add: update_at_def)

lemma fold_update_at_Some:
  "fold (\<lambda>txn. update_at txn k) txns (Some r) = Some (write_fields k txns r)"
  by (induction txns arbitrary: r) (simp_all add: update_at_def write_fields_def)

lemma fold_save_at_Some:
  "fold (\<lambda>txn. save_at a txn k) txns (Some r) = Some (write_fields k txns r)"
  by (induction txns arbitrary: r) (simp_all add: save_at_def write_fields_def)

lemma write_fields_append: "write_fields k (xs @ ys) r = write_fields k ys (write_fields k xs r)"
  by (simp add: write_fields_def)

lemma write_fields_shape:
  "(\<forall>r. write_fields k txns r = r) \<or> (\<exists>q. \<forall>r. write_fields k txns r = assign_fields q r)"
proof (induction txns)
  case Nil
  then show ?case by (simp add: write_fields_def)
next
  case (Cons p txns)
  have step: "write_fields k (p # txns) r =
      write_fields k txns (if p_transaction_id p = k then assign_fields p r else r)" for r
    by (simp add: write_fields_def)
  from Cons.IH show ?case
  proof
    assume "\<forall>r. write_fields k txns r = r"
    then show ?thesis using step by (cases "p_transaction_id p = k") auto
  next
    assume "\<exists>q. \<forall>r. write_fields k txns r = assign_fields q r"
    then obtain q where q: "\<forall>r. write_fields k txns r = assign_fields q r" by blast
    have "\<forall>r. write_fields k (p # txns) r = assign_fields q r"
      using step q by (simp add: assign_fields_absorb)
    then show ?thesis by blast
  qed
qed

lemma write_fields_idem: "write_fields k txns (write_fields k txns r) = write_fields k txns r"
  using write_fields_shape [of k txns] by (auto simp: assign_fields_absorb)

lemma fold_save_at_None:
  "fold (\<lambda>txn. save_at a txn k) txns None = None
   \<or> (\<exists>r0. fold (\<lambda>txn. save_at a txn k) txns None = Some (write_fields k txns r0))"
proof (induction txns)
  case Nil
  then show ?case by simp
next
  case (Cons p txns)
  show ?case
  proof (cases "p_transaction_id p = k")
    case False
    then show ?thesis using Cons.IH by (simp add: save_at_def write_fields_def)
  next
    case True
    have "fold (\<lambda>txn. save_at a txn k) (p # txns) None = Some (write_fields k txns (new_transaction a p))"
      using True by (simp add: save_at_def fold_save_at_Some)
    moreover have "write_fields k (p # txns) (new_transaction a p) = write_fields k txns (new_transaction a p)"
      using True by (simp add: write_fields_def assign_fields_new)
    ultimately show ?thesis by metis
  qed
qed

lemma process_at_idem: "process_at a sr k (process_at a sr k row) = process_at a sr k row"
proof (cases "k \<in> set (removed sr)")
  case True
  then show ?thesis by (simp add: process_at_def fold_remove_at_eq)
next
  case False
  let ?w = "write_fields k (added sr @ modified sr)"
  have some: "process_at a sr k (Some r) = Some (?w r)" for r
    using False
    by (simp add: process_at_def fold_remove_at_eq fold_save_at_Some fold_update_at_Some write_fields_append)
  show ?thesis
  proof (cases row)
    case (Some r)
    then show ?thesis by (simp add: some write_fields_idem)
  next
    case None
    from fold_save_at_None [of a k "added sr"] show ?thesis
    proof
      assume "fold (\<lambda>txn. save_at a txn k) (added sr) None = None"
      then have "process_at a sr k None = None"
        using False by (simp add: process_at_def fold_remove_at_eq fold_update_at_None)
      then show ?thesis using None by simp
    next
      assume "\<exists>r0. fold (\<lambda>txn. save_at a txn k) (added sr) None = Some (write_fields k (added sr) r0)"
      then obtain r0 where "fold (\<lambda>txn. save_at a txn k) (added sr) None = Some (write_fields k (added sr) r0)"
        by blast
      then have "process_at a sr k None = Some (?w r0)"
        using False
        by (simp add: process_at_def fold_remove_at_eq fold_update_at_Some write_fields_append)
      then show ?thesis using None by (simp add: some write_fields_idem)
    qed
  qed
qed

text \<open>
  Claim C2. For every database and every sync response, applying the response (added as
  upsert by transaction identifier, modified as update in place that is skipped without a
  match, removed as delete that does nothing without a match) a second time leaves the
  database as the first application left it.
\<close>

theorem process_sync_result_idempotent:
  "process_sync_result (process_sync_result db account sync_result) account sync_result
     = process_sync_result db account sync_result"
  by (simp add: process_sync_result_at process_at_idem)


text \<open>
  A call that raises nothing leaves the store that its write leaves, so reconciling a
  response as the client returns it is \<open>process_sync_result\<close> on its values, and
  reconciling it a second time, when that raises nothing either, changes nothing.
\<close>

lemma values_of_id [simp]: "p_transaction_id (values_of parse txn) = d_transaction_id txn"
  by (simp add: values_of_def)

lemma update_transaction_call_writes:
  "update_transaction_call parse db txn = Inr db' \<Longrightarrow> db' = update_transaction db (values_of parse txn)"
  by (auto simp: update_transaction_call_def update_transaction_def split: option.splits)

lemma save_transaction_call_writes:
  "save_transaction_call parse db account txn = Inr db' \<Longrightarrow>
   db' = save_transaction db account (values_of parse txn)"
  by (auto simp: save_transaction_call_def save_transaction_def
      dest: update_transaction_call_writes split: option.splits)

lemma for_each_save_writes:
  "for_each (\<lambda>txn d. save_transaction_call parse d account txn) txns db = Inr db' \<Longrightarrow>
   db' = fold (\<lambda>txn d. save_transaction d account txn) (map (values_of parse) txns) db"
proof (induction txns arbitrary: db)
  case Nil
  then show ?case by simp
next
  case (Cons txn txns)
  then show ?case
    by (auto split: sum.splits dest: save_transaction_call_writes)
qed

lemma for_each_update_writes:
  "for_each (\<lambda>txn d. update_transaction_call parse d txn) txns db = Inr db' \<Longrightarrow>
   db' = fold (\<lambda>txn d. update_transaction d txn) (map (values_of parse) txns) db"
proof (induction txns arbitrary: db)
  case Nil
  then show ?case by simp
next
  case (Cons txn txns)
  then show ?case
    by (auto split: sum.splits dest: update_transaction_call_writes)
qed

lemma reconcile_writes:
  "reconcile parse db account sync_result = Inr db' \<Longrightarrow>
   db' = process_sync_result db account (values_of_result parse sync_result)"
  by (auto simp: reconcile_def process_sync_result_def values_of_result_def
      split: sum.splits dest: for_each_save_writes for_each_update_writes)

lemma reconcile_twice:
  assumes "reconcile parse db account sync_result = Inr db1"
    and "reconcile parse db1 account sync_result = Inr db2"
  shows "db2 = db1"
  using reconcile_writes [OF assms(1)] reconcile_writes [OF assms(2)]
  by (simp add: process_sync_result_at process_at_idem)

lemma reconcile_bank_accounts:
  "reconcile parse db account sync_result = Inr db' \<Longrightarrow> bank_accounts db' = bank_accounts db"
  by (auto dest!: reconcile_writes simp: process_sync_result_at)


section \<open>The synchronisation run\<close>

text \<open>
  What a run returns and leaves behind when the account is found, its token decrypts, its
  cursor is set, the provider answers and the response is reconciled and committed; what
  it leaves behind when the token does not decrypt, and when the cursor is NULL. A run
  sends at most one request, and a run that raises leaves the database as it was.
\<close>

lemma sync_result_eta:
  "\<lparr>added = added page, modified = modified page, removed = removed page,
    has_more = has_more page, next_cursor = next_cursor page\<rparr> = (page :: 'p sync_result)"
  by simp

lemma sync_account_transactions_success:
  assumes "first_account (st_db st) ident = Some row"
    and "decrypt (crypto env) (ENCRYPTION_KEY env) (st_fernet st) (plaid_access_token row) = (Inr token, cache)"
    and "plaid_cursor row = Some cursor"
    and "transactions_sync env token cursor = Inr page"
    and "reconcile (strptime_ymd env) (st_db st) (row\<lparr>plaid_access_token := token\<rparr>) page = Inr db1"
    and "commit_account_call db1 ident (next_cursor page) (utcnow env) = Inr db2"
  shows "sync_account_transactions env st ident =
     (Inr \<lparr>added_count = length (added page), modified_count = length (modified page),
           removed_count = length (removed page)\<rparr>,
      st\<lparr>st_fernet := cache,
         st_requests := st_requests st @ [(token, cursor)],
         st_db := db2\<rparr>)"
  using assms
  by (simp add: sync_account_transactions_def query_bank_account_def sync_transactions_def Let_def sync_result_eta)

lemma sync_account_transactions_decrypt_error:
  assumes "first_account (st_db st) ident = Some row"
    and "decrypt (crypto env) (ENCRYPTION_KEY env) (st_fernet st) (plaid_access_token row) = (Inl e, cache)"
  shows "sync_account_transactions env st ident = (Inl e, st\<lparr>st_fernet := cache\<rparr>)"
  using assms
  by (simp add: sync_account_transactions_def query_bank_account_def)

lemma sync_account_transactions_null_cursor:
  assumes "first_account (st_db st) ident = Some row"
    and "decrypt (crypto env) (ENCRYPTION_KEY env) (st_fernet st) (plaid_access_token row) = (Inr token, cache)"
    and "plaid_cursor row = None"
  shows "sync_account_transactions env st ident =
     (Inl (ApiTypeError cursor_type_message), st\<lparr>st_fernet := cache\<rparr>)"
  using assms
  by (simp add: sync_account_transactions_def query_bank_account_def sync_transactions_def)

lemma sync_account_transactions_requests:
  "st_requests (snd (sync_account_transactions env st ident)) = st_requests st
   \<or> (\<exists>token cursor. st_requests (snd (sync_account_transactions env st ident)) =
         st_requests st @ [(token, cursor)])"
  by (auto simp: sync_account_transactions_def query_bank_account_def sync_transactions_def Let_def
      split: option.splits sum.splits prod.splits)

lemma sync_account_transactions_failure_db:
  "fst (sync_account_transactions env st ident) = Inl e \<Longrightarrow>
   st_db (snd (sync_account_transactions env st ident)) = st_db st"
  by (auto simp: sync_account_transactions_def query_bank_account_def sync_transactions_def Let_def
      split: option.splits sum.splits prod.splits)

lemma find_commit_account:
  "first_account db ident = Some row \<Longrightarrow>
   first_account (commit_account db ident cursor now) ident =
     Some (row\<lparr>plaid_cursor := cursor, last_synced_at := Some now, sync_error := None\<rparr>)"
proof -
  have "find (\<lambda>a. account_id a = ident) rows = Some row \<Longrightarrow>
     find (\<lambda>a. account_id a = ident)
       (map (\<lambda>a. if account_id a = ident
                  then a\<lparr>plaid_cursor := cursor, last_synced_at := Some now, sync_error := None\<rparr>
                  else a) rows) =
     Some (row\<lparr>plaid_cursor := cursor, last_synced_at := Some now, sync_error := None\<rparr>)" for rows
    by (induction rows) (auto split: if_splits)
  then show "first_account db ident = Some row \<Longrightarrow> ?thesis"
    by (simp add: commit_account_def first_account_def)
qed

lemma transactions_commit_account:
  "transactions (commit_account db ident cursor now) = transactions db"
  by (simp add: commit_account_def)

lemma commit_account_call_writes:
  "commit_account_call db ident cursor now = Inr db' \<Longrightarrow> db' = commit_account db ident cursor now"
  by (auto simp: commit_account_call_def split: if_splits)


subsection \<open>The sample run\<close>

lemma sample_find_1:
  "first_account (st_db sample_state) sample_id_1 = Some sample_account_1"
  by (simp add: first_account_def sample_state_def sample_db_def sample_account_1_def)

lemma sample_find_2:
  "first_account (st_db sample_state) sample_id_2 = Some sample_account_2"
  by (simp add: first_account_def sample_state_def sample_db_def sample_account_1_def
      sample_account_2_def sample_id_1_def sample_id_2_def)

lemma sample_find_3:
  "first_account (st_db sample_state) ''acct-3'' = Some sample_account_3"
  by (simp add: first_account_def sample_state_def sample_db_def sample_account_1_def sample_account_2_def sample_account_3_def sample_id_1_def sample_id_2_def)

lemma sample_find_9:
  "first_account (st_db sample_state) ''acct-9'' = None"
  by (simp add: first_account_def sample_state_def sample_db_def sample_account_1_def sample_account_2_def sample_account_3_def sample_id_1_def sample_id_2_def)

lemma sample_decrypt_ok:
  "decrypt (crypto sample_env) (ENCRYPTION_KEY sample_env) (st_fernet sample_state) ''enc:access-1''
     = (Inr ''access-1'', Some ''good-key'')"
  by (simp add: Let_def decrypt_def get_fernet_def sample_env_def sample_state_def sample_lib_def
      sample_Fernet_def sample_fernet_decrypt_def)

lemma sample_decrypt_corrupted:
  "decrypt (crypto sample_env) (ENCRYPTION_KEY sample_env) (st_fernet sample_state) ''corrupted''
     = (Inl (ValueError decrypt_failed_message), Some ''good-key'')"
  by (simp add: Let_def decrypt_def get_fernet_def sample_env_def sample_state_def sample_lib_def
      sample_Fernet_def sample_fernet_decrypt_def)

lemma sample_decrypt_3:
  "decrypt (crypto sample_env) (ENCRYPTION_KEY sample_env) (st_fernet sample_state)
      (plaid_access_token sample_account_3) = (Inl (ValueError decrypt_failed_message), Some ''good-key'')"
  using sample_decrypt_corrupted by (simp add: sample_account_3_def)

lemma sample_decrypt_1:
  "decrypt (crypto sample_env) (ENCRYPTION_KEY sample_env) (st_fernet sample_state)
      (plaid_access_token sample_account_1) = (Inr ''access-1'', Some ''good-key'')"
  using sample_decrypt_ok by (simp add: sample_account_1_def)

lemma sample_decrypt_2:
  "decrypt (crypto sample_env) (ENCRYPTION_KEY sample_env) (st_fernet sample_state)
      (plaid_access_token sample_account_2) = (Inr ''access-1'', Some ''good-key'')"
  using sample_decrypt_ok by (simp add: sample_account_2_def)

lemma sample_cursor_1: "plaid_cursor sample_account_1 = Some ''c0''"
  by (simp add: sample_account_1_def)

lemma sample_cursor_2: "plaid_cursor sample_account_2 = Some ''c0''"
  by (simp add: sample_account_2_def)

lemma sample_first_page:
  "transactions_sync sample_env ''access-1'' ''c0'' = Inr sample_page_1"
  by (simp add: sample_env_def sample_transactions_sync_def)

lemma sample_second_page:
  "transactions_sync sample_env ''access-1'' ''c1'' = Inr sample_page_2"
  by (simp add: sample_env_def sample_transactions_sync_def)

lemma sample_reconcile:
  "reconcile (strptime_ymd sample_env) (st_db sample_state) account sample_page_1 = Inr sample_db"
  by (simp add: reconcile_def sample_page_1_def sample_state_def update_transaction_call_def
      remove_transaction_def sample_db_def sample_txn_2_def)

lemma sample_commit:
  "commit_account_call sample_db ident (next_cursor sample_page_1) (utcnow sample_env) =
     Inr (commit_account sample_db ident (Some ''c1'') 1700000000)"
  by (simp add: commit_account_call_def varchar_fits_def sample_page_1_def sample_env_def)

lemma sample_run_1:
  "sync_account_transactions sample_env sample_state sample_id_1 =
     (Inr \<lparr>added_count = 0, modified_count = 1, removed_count = 1\<rparr>,
      sample_state\<lparr>st_fernet := Some ''good-key'',
         st_requests := [(''access-1'', ''c0'')],
         st_db := commit_account sample_db sample_id_1 (Some ''c1'') 1700000000\<rparr>)"
  using sync_account_transactions_success
    [OF sample_find_1 sample_decrypt_1 sample_cursor_1 sample_first_page sample_reconcile sample_commit]
  by (simp add: sample_page_1_def sample_state_def)

lemma sample_run_2:
  "sync_account_transactions sample_env sample_state sample_id_2 =
     (Inr \<lparr>added_count = 0, modified_count = 1, removed_count = 1\<rparr>,
      sample_state\<lparr>st_fernet := Some ''good-key'',
         st_requests := [(''access-1'', ''c0'')],
         st_db := commit_account sample_db sample_id_2 (Some ''c1'') 1700000000\<rparr>)"
  using sync_account_transactions_success
    [OF sample_find_2 sample_decrypt_2 sample_cursor_2 sample_first_page sample_reconcile sample_commit]
  by (simp add: sample_page_1_def sample_state_def)

lemma sample_run_9:
  "sync_account_transactions sample_env sample_state ''acct-9'' =
     (Inl (ValueError ''Account acct-9 not found''), sample_state)"
  using sample_find_9 by (simp add: sync_account_transactions_def query_bank_account_def)


subsection \<open>One request per run\<close>

text \<open>
  Claim C1, as amended. A run whose account has a stored cursor, whose request is answered
  and whose response is reconciled and committed without an exception has sent exactly
  one request, with the stored cursor, has applied that one response and has stored its
  \<open>next_cursor\<close>, whatever \<open>has_more\<close> says.
\<close>

theorem sync_run_applies_one_page:
  assumes "first_account (st_db st) ident = Some row"
    and "decrypt (crypto env) (ENCRYPTION_KEY env) (st_fernet st) (plaid_access_token row) = (Inr token, cache)"
    and "plaid_cursor row = Some cursor"
    and "transactions_sync env token cursor = Inr page"
    and "reconcile (strptime_ymd env) (st_db st) (row\<lparr>plaid_access_token := token\<rparr>) page = Inr db1"
    and "commit_account_call db1 ident (next_cursor page) (utcnow env) = Inr db2"
  shows "fst (sync_account_transactions env st ident) =
           Inr \<lparr>added_count = length (added page), modified_count = length (modified page),
                 removed_count = length (removed page)\<rparr>
     \<and> st_requests (snd (sync_account_transactions env st ident)) =
           st_requests st @ [(token, cursor)]
     \<and> transactions (st_db (snd (sync_account_transactions env st ident))) = transactions db1
     \<and> map_option plaid_cursor
           (first_account (st_db (snd (sync_account_transactions env st ident))) ident) =
           Some (next_cursor page)"
proof -
  have "first_account db1 ident = Some row"
    using assms(1) reconcile_bank_accounts [OF assms(5)] by (simp add: first_account_def)
  moreover have "db2 = commit_account db1 ident (next_cursor page) (utcnow env)"
    using assms(6) by (rule commit_account_call_writes)
  ultimately show ?thesis
    by (simp add: sync_account_transactions_success [OF assms] find_commit_account
        transactions_commit_account)
qed

theorem sync_run_applies_one_page_witness:
  "first_account (st_db sample_state) sample_id_1 = Some sample_account_1
   \<and> decrypt (crypto sample_env) (ENCRYPTION_KEY sample_env) (st_fernet sample_state)
        (plaid_access_token sample_account_1) = (Inr ''access-1'', Some ''good-key'')
   \<and> plaid_cursor sample_account_1 = Some ''c0''
   \<and> transactions_sync sample_env ''access-1'' ''c0'' = Inr sample_page_1
   \<and> reconcile (strptime_ymd sample_env) (st_db sample_state)
        (sample_account_1\<lparr>plaid_access_token := ''access-1''\<rparr>) sample_page_1 = Inr sample_db
   \<and> commit_account_call sample_db sample_id_1 (next_cursor sample_page_1) (utcnow sample_env) =
        Inr (commit_account sample_db sample_id_1 (Some ''c1'') 1700000000)
   \<and> has_more sample_page_1
   \<and> st_requests (snd (sync_account_transactions sample_env sample_state sample_id_1)) =
        [(''access-1'', ''c0'')]
   \<and> map_option plaid_cursor
        (first_account (st_db (snd (sync_account_transactions sample_env sample_state sample_id_1)))
           sample_id_1) = Some (Some ''c1'')"
  using sync_run_applies_one_page
    [OF sample_find_1 sample_decrypt_1 sample_cursor_1 sample_first_page sample_reconcile sample_commit]
    sample_find_1 sample_decrypt_1 sample_cursor_1 sample_first_page sample_reconcile sample_commit
  by (simp add: sample_page_1_def sample_state_def)


text \<open>
  Claim C1 as stated fails: the sample provider answers the request for the cursor \<open>c0\<close>
  with \<open>has_more = True\<close> and has a second page under the returned cursor \<open>c1\<close>, yet the
  run ends with success after one request.
\<close>

theorem sync_run_stops_after_first_page_counterexample:
  "plaid_cursor sample_account_1 = Some ''c0''
   \<and> transactions_sync sample_env ''access-1'' ''c0'' = Inr sample_page_1
   \<and> has_more sample_page_1
   \<and> next_cursor sample_page_1 = Some ''c1''
   \<and> transactions_sync sample_env ''access-1'' ''c1'' = Inr sample_page_2
   \<and> fst (sync_account_transactions sample_env sample_state sample_id_1) =
        Inr \<lparr>added_count = 0, modified_count = 1, removed_count = 1\<rparr>
   \<and> st_requests (snd (sync_account_transactions sample_env sample_state sample_id_1)) =
        [(''access-1'', ''c0'')]"
  by (simp add: sample_run_1 sample_first_page sample_second_page sample_cursor_1)
     (simp add: sample_page_1_def)


subsection \<open>A token that does not decrypt\<close>

text \<open>
  Claim C3. When decrypting the stored access token of the account fails, the run ends
  with that error, no request is sent to the provider, and the database, hence the
  account's stored cursor, is what it was; the same holds after the worker task's
  rollback.
\<close>

theorem decrypt_failure_aborts_sync:
  assumes "first_account (st_db st) ident = Some row"
    and "decrypt (crypto env) (ENCRYPTION_KEY env) (st_fernet st) (plaid_access_token row) = (Inl e, cache)"
  shows "fst (sync_account_transactions env st ident) = Inl e
     \<and> st_db (snd (sync_account_transactions env st ident)) = st_db st
     \<and> st_requests (snd (sync_account_transactions env st ident)) = st_requests st
     \<and> st_db (snd (sync_account_transactions_task env st request_retries ident)) = st_db st"
  by (simp add: sync_account_transactions_decrypt_error [OF assms] sync_account_transactions_task_def)

theorem decrypt_failure_aborts_sync_witness:
  "first_account (st_db sample_state) ''acct-3'' = Some sample_account_3
   \<and> decrypt (crypto sample_env) (ENCRYPTION_KEY sample_env) (st_fernet sample_state)
        (plaid_access_token sample_account_3) = (Inl (ValueError decrypt_failed_message), Some ''good-key'')
   \<and> fst (sync_account_transactions sample_env sample_state ''acct-3'') = Inl (ValueError decrypt_failed_message)
   \<and> st_db (snd (sync_account_transactions sample_env sample_state ''acct-3'')) = sample_db
   \<and> st_requests (snd (sync_account_transactions sample_env sample_state ''acct-3'')) = []
   \<and> map_option plaid_cursor (first_account sample_db ''acct-3'') = Some (Some ''c0'')"
  using decrypt_failure_aborts_sync [OF sample_find_3 sample_decrypt_3, of 0]
    sample_find_3 sample_decrypt_3
  by (simp add: sample_state_def) (simp add: sample_db_def sample_account_1_def sample_account_2_def sample_account_3_def sample_id_1_def sample_id_2_def)


subsection \<open>Inactive accounts\<close>

text \<open>
  Claim C7, as amended. A run for an account whose row exists and is marked inactive is
  not rejected for that: when the account has a stored cursor, the request is answered and
  the response is reconciled and committed without an exception, the run returns the
  counts of the response, has sent the request to the provider and has committed the
  reconciled response and the new cursor, as for an active account.
\<close>

theorem inactive_account_is_synced:
  assumes "first_account (st_db st) ident = Some row"
    and "\<not> is_active row"
    and "decrypt (crypto env) (ENCRYPTION_KEY env) (st_fernet st) (plaid_access_token row) = (Inr token, cache)"
    and "plaid_cursor row = Some cursor"
    and "transactions_sync env token cursor = Inr page"
    and "reconcile (strptime_ymd env) (st_db st) (row\<lparr>plaid_access_token := token\<rparr>) page = Inr db1"
    and "commit_account_call db1 ident (next_cursor page) (utcnow env) = Inr db2"
  shows "fst (sync_account_transactions env st ident) =
           Inr \<lparr>added_count = length (added page), modified_count = length (modified page),
                 removed_count = length (removed page)\<rparr>
     \<and> st_requests (snd (sync_account_transactions env st ident)) =
           st_requests st @ [(token, cursor)]
     \<and> st_db (snd (sync_account_transactions env st ident)) = db2"
  by (simp add: sync_account_transactions_success
      [OF assms(1) assms(3) assms(4) assms(5) assms(6) assms(7)])

theorem inactive_account_is_synced_witness:
  "first_account (st_db sample_state) sample_id_2 = Some sample_account_2
   \<and> \<not> is_active sample_account_2
   \<and> decrypt (crypto sample_env) (ENCRYPTION_KEY sample_env) (st_fernet sample_state)
        (plaid_access_token sample_account_2) = (Inr ''access-1'', Some ''good-key'')
   \<and> plaid_cursor sample_account_2 = Some ''c0''
   \<and> transactions_sync sample_env ''access-1'' ''c0'' = Inr sample_page_1
   \<and> reconcile (strptime_ymd sample_env) (st_db sample_state)
        (sample_account_2\<lparr>plaid_access_token := ''access-1''\<rparr>) sample_page_1 = Inr sample_db
   \<and> commit_account_call sample_db sample_id_2 (next_cursor sample_page_1) (utcnow sample_env) =
        Inr (commit_account sample_db sample_id_2 (Some ''c1'') 1700000000)
   \<and> st_db (snd (sync_account_transactions sample_env sample_state sample_id_2)) =
        commit_account sample_db sample_id_2 (Some ''c1'') 1700000000"
proof -
  have i: "\<not> is_active sample_account_2" by (simp add: sample_account_2_def)
  from inactive_account_is_synced
    [OF sample_find_2 i sample_decrypt_2 sample_cursor_2 sample_first_page sample_reconcile sample_commit]
  show ?thesis
    using sample_find_2 i sample_decrypt_2 sample_cursor_2 sample_first_page sample_reconcile sample_commit
    by simp
qed


text \<open>
  Claim C7 as stated fails on the second sample account, which is inactive: the run
  succeeds, the provider is called, and the account's cursor, time of synchronisation and
  error are overwritten.
\<close>

theorem inactive_account_counterexample:
  "first_account (st_db sample_state) sample_id_2 = Some sample_account_2
   \<and> \<not> is_active sample_account_2
   \<and> fst (sync_account_transactions sample_env sample_state sample_id_2) =
        Inr \<lparr>added_count = 0, modified_count = 1, removed_count = 1\<rparr>
   \<and> st_requests (snd (sync_account_transactions sample_env sample_state sample_id_2)) =
        [(''access-1'', ''c0'')]
   \<and> first_account (st_db (snd (sync_account_transactions sample_env sample_state sample_id_2)))
        sample_id_2 =
        Some (sample_account_2\<lparr>plaid_cursor := Some ''c1'', last_synced_at := Some 1700000000,
                sync_error := None\<rparr>)"
proof -
  have a: "\<not> is_active sample_account_2" by (simp add: sample_account_2_def)
  have f: "first_account sample_db sample_id_2 = Some sample_account_2"
    using sample_find_2 by (simp add: sample_state_def)
  show ?thesis
    using sample_find_2 a find_commit_account [OF f, of "Some ''c1''" 1700000000]
    by (simp add: sample_run_2)
qed


section \<open>Stored amounts\<close>

text \<open>
  The amount in the row that a write leaves under the payload's identifier, and two
  roundings of the column.
\<close>

lemma numeric_15_2_5: "numeric_15_2 5 = 5"
  by (simp add: numeric_15_2_def)

lemma numeric_15_2_5555: "numeric_15_2 (5555 / 1000) = 556 / 100"
  by (simp add: numeric_15_2_def)

lemma amount_after_save:
  "map_option amount (transactions (save_transaction db account v) (p_transaction_id v))
     = Some (numeric_15_2 \<bar>p_amount v\<bar>)"
  by (simp add: save_transaction_def update_transaction_def new_transaction_def assign_fields_def
      split: option.splits)

lemma amount_after_update:
  "transactions db (p_transaction_id v) = Some row \<Longrightarrow>
   map_option amount (transactions (update_transaction db v) (p_transaction_id v))
     = Some (numeric_15_2 \<bar>p_amount v\<bar>)"
  by (simp add: update_transaction_def assign_fields_def)

lemma values_of_amount: "p_amount (values_of parse txn) = d_amount txn"
  by (simp add: values_of_def)

lemma sample_save_1:
  "save_transaction_call sample_strptime sample_db sample_account_1 sample_txn_1 =
     Inr (save_transaction sample_db sample_account_1 (values_of sample_strptime sample_txn_1))"
  by (simp add: save_transaction_call_def insert_raises_def strptime_raises_def
      authorized_date_raises_def category_raises_def insert_refused_def transaction_fits_def
      varchar_fits_def new_transaction_def values_of_def field_get_def sample_strptime_def
      sample_txn_1_def sample_db_def numeric_15_2_def)

lemma sample_saved_row:
  "transactions (save_transaction sample_db sample_account_1 (values_of sample_strptime sample_txn_1))
     ''txn-1'' = Some (new_transaction sample_account_1 (values_of sample_strptime sample_txn_1))"
  by (simp add: save_transaction_def sample_db_def values_of_def sample_txn_1_def)

lemma sample_update_3:
  "update_transaction_call sample_strptime
     (save_transaction sample_db sample_account_1 (values_of sample_strptime sample_txn_1))
     sample_txn_3 =
   Inr (update_transaction
     (save_transaction sample_db sample_account_1 (values_of sample_strptime sample_txn_1))
     (values_of sample_strptime sample_txn_3))"
proof -
  have id3: "d_transaction_id sample_txn_3 = ''txn-1''" by (simp add: sample_txn_3_def)
  have r: "update_raises sample_strptime sample_txn_3 = None"
    by (simp add: update_raises_def strptime_raises_def category_raises_def sample_strptime_def
        sample_txn_3_def)
  have f: "update_refused sample_txn_3
      (assign_fields (values_of sample_strptime sample_txn_3)
         (new_transaction sample_account_1 (values_of sample_strptime sample_txn_1))) = None"
    by (simp add: update_refused_def transaction_fits_def varchar_fits_def assign_fields_def
        new_transaction_def values_of_def field_get_def sample_strptime_def sample_txn_3_def
        sample_txn_1_def numeric_15_2_def)
  show ?thesis
    by (simp add: update_transaction_call_def id3 sample_saved_row r f)
qed


text \<open>
  A payload as the SDK delivers it has a date object under \<open>date\<close>: for it both write
  paths raise \<open>TypeError\<close> at \<open>strptime\<close> and nothing is stored.
\<close>

lemma date_object_insert_raises:
  "transactions db (d_transaction_id txn) = None \<Longrightarrow> d_date txn = DateObject d \<Longrightarrow>
   save_transaction_call parse db account txn =
     Inl (TypeError ''strptime() argument 1 must be str, not datetime.date'')"
  by (simp add: save_transaction_call_def insert_raises_def strptime_raises_def)

lemma date_object_update_raises:
  "transactions db (d_transaction_id txn) = Some row \<Longrightarrow> d_date txn = DateObject d \<Longrightarrow>
   update_transaction_call parse db txn =
     Inl (TypeError ''strptime() argument 1 must be str, not datetime.date'')"
  by (simp add: update_transaction_call_def update_raises_def strptime_raises_def)

text \<open>
  Claim C5, as amended. Whenever \<open>_save_transaction\<close> or, on a stored identifier,
  \<open>_update_transaction\<close> returns without an exception, the amount stored under the
  payload's identifier is the absolute value of the provider's amount, rounded to two
  decimals as the column stores it: the sign is discarded.
\<close>

theorem stored_amount_is_absolute_value:
  "(save_transaction_call parse db account txn = Inr db1 \<longrightarrow>
      map_option amount (transactions db1 (d_transaction_id txn))
        = Some (numeric_15_2 \<bar>d_amount txn\<bar>))
   \<and> (transactions db (d_transaction_id txn) \<noteq> None \<longrightarrow>
      update_transaction_call parse db txn = Inr db2 \<longrightarrow>
      map_option amount (transactions db2 (d_transaction_id txn))
        = Some (numeric_15_2 \<bar>d_amount txn\<bar>))"
proof (intro conjI impI)
  assume "save_transaction_call parse db account txn = Inr db1"
  then have "db1 = save_transaction db account (values_of parse txn)"
    by (rule save_transaction_call_writes)
  then show "map_option amount (transactions db1 (d_transaction_id txn))
        = Some (numeric_15_2 \<bar>d_amount txn\<bar>)"
    using amount_after_save [of db account "values_of parse txn"]
    by (simp add: values_of_amount)
next
  assume "transactions db (d_transaction_id txn) \<noteq> None"
    and "update_transaction_call parse db txn = Inr db2"
  then obtain row where "transactions db (p_transaction_id (values_of parse txn)) = Some row"
    and "db2 = update_transaction db (values_of parse txn)"
    by (auto dest: update_transaction_call_writes)
  then show "map_option amount (transactions db2 (d_transaction_id txn))
        = Some (numeric_15_2 \<bar>d_amount txn\<bar>)"
    using amount_after_update [of db "values_of parse txn" row]
    by (simp add: values_of_amount)
qed

theorem stored_amount_is_absolute_value_witness:
  "save_transaction_call sample_strptime sample_db sample_account_1 sample_txn_1 =
     Inr (save_transaction sample_db sample_account_1 (values_of sample_strptime sample_txn_1))
   \<and> map_option amount
        (transactions (save_transaction sample_db sample_account_1 (values_of sample_strptime sample_txn_1))
           (d_transaction_id sample_txn_1)) = Some (numeric_15_2 \<bar>d_amount sample_txn_1\<bar>)
   \<and> transactions (save_transaction sample_db sample_account_1 (values_of sample_strptime sample_txn_1))
        (d_transaction_id sample_txn_3) \<noteq> None
   \<and> d_amount sample_txn_3 = - 5555 / 1000
   \<and> map_option amount
        (transactions
           (update_transaction
              (save_transaction sample_db sample_account_1 (values_of sample_strptime sample_txn_1))
              (values_of sample_strptime sample_txn_3))
           (d_transaction_id sample_txn_3)) = Some (556 / 100)"
proof -
  have id3: "d_transaction_id sample_txn_3 = ''txn-1''" by (simp add: sample_txn_3_def)
  have a3: "d_amount sample_txn_3 = - 5555 / 1000" by (simp add: sample_txn_3_def)
  have n: "numeric_15_2 \<bar>d_amount sample_txn_3\<bar> = 556 / 100"
    using numeric_15_2_5555 by (simp add: a3)
  have e: "transactions (save_transaction sample_db sample_account_1 (values_of sample_strptime sample_txn_1))
        (d_transaction_id sample_txn_3) \<noteq> None"
    by (simp add: id3 sample_saved_row)
  let ?db1 = "save_transaction sample_db sample_account_1 (values_of sample_strptime sample_txn_1)"
  let ?db2 = "update_transaction ?db1 (values_of sample_strptime sample_txn_3)"
  have first: "map_option amount (transactions ?db1 (d_transaction_id sample_txn_1))
      = Some (numeric_15_2 \<bar>d_amount sample_txn_1\<bar>)"
    using stored_amount_is_absolute_value
      [of sample_strptime sample_db sample_account_1 sample_txn_1 ?db1 db2] sample_save_1
    by blast
  have "map_option amount (transactions ?db2 (d_transaction_id sample_txn_3))
      = Some (numeric_15_2 \<bar>d_amount sample_txn_3\<bar>)"
    using stored_amount_is_absolute_value
      [of sample_strptime ?db1 sample_account_1 sample_txn_3 db1 ?db2] sample_update_3 e
    by blast
  then have second: "map_option amount (transactions ?db2 (d_transaction_id sample_txn_3))
      = Some (556 / 100)"
    by (simp only: n)
  from sample_save_1 first e a3 second show ?thesis by blast
qed


text \<open>
  Claim C5 as stated fails: the sample payload has amount \<open>-5\<close> and is stored with
  amount \<open>5\<close>.
\<close>

theorem signed_amount_counterexample:
  "d_amount sample_txn_1 = - 5
   \<and> save_transaction_call sample_strptime sample_db sample_account_1 sample_txn_1 =
        Inr (save_transaction sample_db sample_account_1 (values_of sample_strptime sample_txn_1))
   \<and> map_option amount
        (transactions (save_transaction sample_db sample_account_1 (values_of sample_strptime sample_txn_1))
           (d_transaction_id sample_txn_1)) = Some 5"
proof -
  have a: "d_amount sample_txn_1 = - 5" by (simp add: sample_txn_1_def)
  have "map_option amount
        (transactions (save_transaction sample_db sample_account_1 (values_of sample_strptime sample_txn_1))
           (d_transaction_id sample_txn_1)) = Some (numeric_15_2 \<bar>d_amount sample_txn_1\<bar>)"
    using amount_after_save [of sample_db sample_account_1 "values_of sample_strptime sample_txn_1"]
    by (simp add: values_of_amount)
  then show ?thesis using a sample_save_1 numeric_15_2_5 by simp
qed


section \<open>Retries of the worker task\<close>

text \<open>
  Claim C4, as amended. Whatever exception the run fails with, the task asks for a retry
  after a fixed 300 seconds as long as fewer than \<open>max_retries = 3\<close> retries have been
  made, and fails with that exception afterwards; the database is rolled back.
\<close>

theorem task_retries_every_failure:
  assumes "fst (sync_account_transactions env st ident) = Inl e"
  shows "fst (sync_account_transactions_task env st request_retries ident) =
           (if request_retries < max_retries then Retry e 300 else Failure e)
     \<and> st_db (snd (sync_account_transactions_task env st request_retries ident)) = st_db st"
  using assms
  by (cases "sync_account_transactions env st ident")
     (auto simp: sync_account_transactions_task_def self_retry_def)

theorem task_retries_every_failure_witness:
  "fst (sync_account_transactions sample_env sample_state ''acct-9'') =
      Inl (ValueError ''Account acct-9 not found'')
   \<and> fst (sync_account_transactions_task sample_env sample_state 2 ''acct-9'') =
      Retry (ValueError ''Account acct-9 not found'') 300
   \<and> fst (sync_account_transactions_task sample_env sample_state 3 ''acct-9'') =
      Failure (ValueError ''Account acct-9 not found'')"
proof -
  have f: "fst (sync_account_transactions sample_env sample_state ''acct-9'') =
      Inl (ValueError ''Account acct-9 not found'')"
    by (simp add: sample_run_9)
  from task_retries_every_failure [OF f, of 2] task_retries_every_failure [OF f, of 3] f
  show ?thesis by (simp add: max_retries_def)
qed


text \<open>
  Claim C4 as stated fails: a run for an account identifier that is not in the database
  is retried.
\<close>

theorem unknown_account_is_retried_counterexample:
  "first_account (st_db sample_state) ''acct-9'' = None
   \<and> fst (sync_account_transactions_task sample_env sample_state 0 ''acct-9'') =
        Retry (ValueError ''Account acct-9 not found'') 300"
  using sample_find_9
  by (simp add: sync_account_transactions_task_def sample_run_9 self_retry_def max_retries_def)


section \<open>Webhook verification\<close>

text \<open>
  The call of the decoder without its key raises \<open>TypeError\<close> for every header that is not
  empty, which the last \<open>except\<close> clause answers with status 500: no check of the hash or
  of the age is reached.
\<close>

lemma verify_plaid_webhook_raises_500:
  "signature \<noteq> [] \<Longrightarrow>
   verify_plaid_webhook decode sha256_hexdigest current_time (Some signature) body =
     Inl (HTTPException HTTP_500_INTERNAL_SERVER_ERROR ''Webhook verification error'')"
  by (simp add: verify_plaid_webhook_def verify_plaid_webhook_checks_def jose_jwt_decode_def)


text \<open>
  Claim C6. A token whose \<open>iat\<close> is more than 300 seconds old must be rejected as stale
  even when the hash matches. The code does not get that far: for the sample token, issued
  at 600 and verified at 1000 with a matching hash, the answer is status 500 with the
  text \<open>Webhook verification error\<close>, not the rejection of a stale token.
\<close>

theorem stale_token_gets_500:
  "sample_jwt_decode ''token-iat-600'' ''key'' = Inr sample_claims_iat_600
   \<and> sample_claims_iat_600 ''request_body_sha256'' = Some (JStr (sample_sha256 ''{}''))
   \<and> sample_claims_iat_600 ''iat'' = Some (JInt 600)
   \<and> 1000 - 600 > MAX_WEBHOOK_AGE
   \<and> verify_plaid_webhook sample_jwt_decode sample_sha256 1000 (Some ''token-iat-600'') ''{}'' =
        Inl (HTTPException 500 ''Webhook verification error'')"
  using verify_plaid_webhook_raises_500 [of "''token-iat-600''" sample_jwt_decode sample_sha256 1000 "''{}''"]
  by (simp add: sample_jwt_decode_def sample_claims_iat_600_def MAX_WEBHOOK_AGE_def
      HTTP_500_INTERNAL_SERVER_ERROR_def)


text \<open>
  Claim C10. A token that decodes, whose \<open>request_body_sha256\<close> is the hash of the body and
  that carries no \<open>iat\<close> claim must verify. The code does not get that far either: for the
  sample token without \<open>iat\<close> and with a matching hash the answer is status 500.
\<close>

theorem token_without_iat_gets_500:
  "sample_jwt_decode ''token-no-iat'' ''key'' = Inr sample_claims_no_iat
   \<and> sample_claims_no_iat ''request_body_sha256'' = Some (JStr (sample_sha256 ''{}''))
   \<and> sample_claims_no_iat ''iat'' = None
   \<and> verify_plaid_webhook sample_jwt_decode sample_sha256 1000 (Some ''token-no-iat'') ''{}'' =
        Inl (HTTPException 500 ''Webhook verification error'')"
  using verify_plaid_webhook_raises_500 [of "''token-no-iat''" sample_jwt_decode sample_sha256 1000 "''{}''"]
  by (simp add: sample_jwt_decode_def sample_claims_no_iat_def HTTP_500_INTERNAL_SERVER_ERROR_def)


text \<open>
  Claim C8, as amended. For an algorithm name other than \<open>sha256\<close> and \<open>sha512\<close> the generic
  verifier raises \<open>WebhookVerificationError\<close>, the exception of a failed verification,
  with the text \<open>Failed to verify signature: Unsupported algorithm: \<close> and the name; it
  returns neither \<open>True\<close> nor \<open>False\<close>.
\<close>

theorem unsupported_algorithm_raises_verification_error:
  assumes "algorithm \<noteq> ''sha256''" and "algorithm \<noteq> ''sha512''"
  shows "verify_hmac_signature hmac_hexdigest body signature secret algorithm =
     Inl (WebhookVerificationError
            (''Failed to verify signature: Unsupported algorithm: '' @ algorithm))"
  using assms by (simp add: verify_hmac_signature_def verify_hmac_signature_try_def)

theorem unsupported_algorithm_raises_verification_error_witness:
  "''sha1'' \<noteq> ''sha256'' \<and> ''sha1'' \<noteq> ''sha512'' \<and>
   verify_hmac_signature sample_hmac ''{}'' ''abc'' ''secret'' ''sha1'' =
     Inl (WebhookVerificationError ''Failed to verify signature: Unsupported algorithm: sha1'')"
proof -
  have a: "''sha1'' \<noteq> ''sha256''" and b: "''sha1'' \<noteq> ''sha512''" by simp_all
  from unsupported_algorithm_raises_verification_error
    [OF a b, of sample_hmac "''{}''" "''abc''" "''secret''"]
  show ?thesis by simp
qed


text \<open>
  Claim C8 as stated fails: for the name \<open>md5\<close> the error raised is the verification
  error, not a separate configuration error.
\<close>

theorem unsupported_algorithm_counterexample:
  "verify_hmac_signature sample_hmac ''{}'' ''abc'' ''secret'' ''md5'' =
     Inl (WebhookVerificationError ''Failed to verify signature: Unsupported algorithm: md5'')"
  by (simp add: verify_hmac_signature_def verify_hmac_signature_try_def)


section \<open>Validation of the vault key\<close>

text \<open>
  Claim C9, as amended. The key's format is not checked when the process starts, which
  only requires the key to be present; it is checked when an encrypt or decrypt call on a
  non-empty string first builds the Fernet instance. With a key the constructor rejects,
  every such call raises \<open>ValueError\<close> and leaves the cache empty, and calls on the empty
  string return it without looking at the key.
\<close>

theorem invalid_key_fails_at_first_use:
  fixes lib :: "'f fernet_lib"
  assumes "Fernet lib (if length key = 32 then urlsafe_b64encode lib key else key) = None"
    and "plaintext \<noteq> []" and "ciphertext \<noteq> []"
  shows "(startup (Some key) :: exn + (string \<times> 'f option)) = Inr (key, None)
     \<and> encrypt lib key randomness None plaintext = (Inl (ValueError invalid_key_message), None)
     \<and> decrypt lib key None ciphertext = (Inl (ValueError invalid_key_message), None)
     \<and> encrypt lib key randomness None [] = (Inr [], None)
     \<and> decrypt lib key None [] = (Inr [], None)"
  using assms
  by (simp add: startup_def load_settings_def encrypt_def decrypt_def get_fernet_def)

theorem invalid_key_fails_at_first_use_witness:
  "Fernet sample_lib (if length ''short'' = 32 then urlsafe_b64encode sample_lib ''short'' else ''short'') = None
   \<and> (startup (Some ''short'') :: exn + (string \<times> string option)) = Inr (''short'', None)
   \<and> encrypt sample_lib ''short'' ''r'' None ''access-1'' = (Inl (ValueError invalid_key_message), None)
   \<and> decrypt sample_lib ''short'' None ''enc:access-1'' = (Inl (ValueError invalid_key_message), None)"
proof -
  have k: "Fernet sample_lib (if length ''short'' = 32 then urlsafe_b64encode sample_lib ''short'' else ''short'') = None"
    by (simp add: sample_lib_def sample_Fernet_def)
  have p: "''access-1'' \<noteq> []" and c: "''enc:access-1'' \<noteq> []" by simp_all
  from invalid_key_fails_at_first_use [of sample_lib "''short''" "''access-1''" "''enc:access-1''" "''r''", OF k p c]
  show ?thesis using k by simp
qed


text \<open>
  Claim C9 as stated fails: with the key \<open>bad\<close>, which the sample constructor rejects,
  startup succeeds and the error appears at the first encrypt call.
\<close>

theorem invalid_key_startup_counterexample:
  "Fernet sample_lib ''bad'' = None
   \<and> (startup (Some ''bad'') :: exn + (string \<times> string option)) = Inr (''bad'', None)
   \<and> encrypt sample_lib ''bad'' ''r'' None ''secret'' = (Inl (ValueError invalid_key_message), None)"
  by (simp add: startup_def load_settings_def encrypt_def get_fernet_def sample_lib_def sample_Fernet_def)


end
